theory Spec2Isabelle
  imports Main
begin

section \<open>JavaScript values used by the components\<close>

text \<open>
  The slide index is a JavaScript number. Only integers occur (the index starts at \<open>0\<close> and
  is changed by \<open>+ 1\<close>, \<open>- 1\<close>, \<open>+ totalSlides\<close> and \<open>%\<close>), so a number is an integer or
  \<open>NaN\<close>. The remainder operator \<open>%\<close> takes the sign of the dividend and yields \<open>NaN\<close>
  for a zero divisor; it does not raise.
\<close>

datatype jsnum = Num int | NaN

fun js_add :: "jsnum \<Rightarrow> jsnum \<Rightarrow> jsnum" where
  "js_add (Num a) (Num b) = Num (a + b)"
| "js_add _ _ = NaN"

fun js_sub :: "jsnum \<Rightarrow> jsnum \<Rightarrow> jsnum" where
  "js_sub (Num a) (Num b) = Num (a - b)"
| "js_sub _ _ = NaN"

fun js_rem :: "jsnum \<Rightarrow> jsnum \<Rightarrow> jsnum" where
  "js_rem (Num a) (Num b) = (if b = 0 then NaN else Num (sgn a * (\<bar>a\<bar> mod \<bar>b\<bar>)))"
| "js_rem _ _ = NaN"

text \<open>\<open>xs[n]\<close>: \<open>undefined\<close> (here \<open>None\<close>) outside the array and for \<open>NaN\<close>.\<close>

fun js_index :: "'a list \<Rightarrow> jsnum \<Rightarrow> 'a option" where
  "js_index xs (Num i) = (if 0 \<le> i \<and> i < int (length xs) then Some (xs ! nat i) else None)"
| "js_index xs NaN = None"

text \<open>\<open>s.split(c)\<close> for a one-character separator: every occurrence separates, so
  adjacent separators give empty pieces and the empty string gives one empty piece.\<close>

fun js_split :: "char \<Rightarrow> string \<Rightarrow> string list" where
  "js_split c [] = [[]]"
| "js_split c (x # xs) =
     (if x = c then [] # js_split c xs
      else (case js_split c xs of w # ws \<Rightarrow> (x # w) # ws | [] \<Rightarrow> [[x]]))"

datatype js_error = TypeError

section \<open>The slide carousel (src/components/Slides.tsx)\<close>

record SlideDescriptor =
  imagePath :: string
  title :: string
  subtitle :: string
  description :: string
  align :: string
  accent :: string

definition SLIDE_DURATION :: nat where
  "SLIDE_DURATION = 6500"

definition slides :: "SlideDescriptor list" where
  "slides =
    [\<lparr>imagePath = ''public/images/cocoa/newcocoa.jpg'',
      title = ''Your Voice Matters in Cocoa Farming'',
      subtitle = ''Feedback & Grievance Redress Mechanism'',
      description = ''Submit your feedback and report issues to promote sustainability and fairness in the industry.'',
      align = ''center'', accent = ''text-amber-400''\<rparr>,
     \<lparr>imagePath = ''/images/cocoa/new cocoa2.jpg'',
      title = ''Tracking Progress, Ensuring Transparency'',
      subtitle = ''From Report to Resolution'',
      description = ''Easily track the status of your submitted cases with real-time updates and secure access.'',
      align = ''left'', accent = ''text-sky-400''\<rparr>,
     \<lparr>imagePath = ''/images/cocoa/hand pollution.jpg'',
      title = ''Boosting Yields Through Hand Pollination'',
      subtitle = ''A Key Initiative'',
      description = ''Learn how modern techniques and supportive programs are driving higher cocoa productivity.'',
      align = ''right'', accent = ''text-emerald-400''\<rparr>,
     \<lparr>imagePath = ''/images/cocoa/fetilizer distribution.jpg'',
      title = ''Accountability in Fertilizer Distribution'',
      subtitle = ''Fair Access for All'',
      description = ''Report issues related to resource quality and distribution for immediate action.'',
      align = ''left'', accent = ''text-rose-400''\<rparr>]"

text \<open>
  The two state updaters of \<open>CreativeSlides\<close>, as functions of the previous index.
  \<open>totalSlides\<close> is \<open>slides.length\<close>; it is an argument here so that the updaters can be
  studied for every slide count.
\<close>

definition nextSlide :: "nat \<Rightarrow> jsnum \<Rightarrow> jsnum" where
  "nextSlide totalSlides prev = js_rem (js_add prev (Num 1)) (Num (int totalSlides))"

definition prevSlide :: "nat \<Rightarrow> jsnum \<Rightarrow> jsnum" where
  "prevSlide totalSlides prev =
     js_rem (js_add (js_sub prev (Num 1)) (Num (int totalSlides))) (Num (int totalSlides))"

text \<open>\<open>useState(0)\<close>.\<close>

definition initialSlide :: jsnum where
  "initialSlide = Num 0"

text \<open>The range \<open>[0, N)\<close> of valid slide indices.\<close>

fun in_range :: "nat \<Rightarrow> jsnum \<Rightarrow> bool" where
  "in_range N (Num i) = (0 \<le> i \<and> i < int N)"
| "in_range N NaN = False"

text \<open>
  One render of the component body for a given slide list and index: it reads
  \<open>slides[currentSlide]\<close> and then \<open>currentSlideData.title.split(" ")\<close>. Reading \<open>.title\<close> of
  \<open>undefined\<close> throws a \<open>TypeError\<close>, which aborts the render. The result keeps what the
  returned markup depends on.
\<close>

record slide_view =
  currentSlideData :: SlideDescriptor
  titleWords :: "string list"

definition CreativeSlides_render :: "SlideDescriptor list \<Rightarrow> jsnum \<Rightarrow> js_error + slide_view" where
  "CreativeSlides_render sl currentSlide =
     (case js_index sl currentSlide of
        None \<Rightarrow> Inl TypeError
      | Some d \<Rightarrow> Inr \<lparr>currentSlideData = d, titleWords = js_split CHR '' '' (title d)\<rparr>)"

text \<open>
  The life of a mounted component. Mounting is the first render, with the initial index;
  the effect that arms the interval and the click handlers exist only once that render has
  returned. Afterwards each interval tick calls \<open>nextSlide\<close>, the two buttons call
  \<open>nextSlide\<close> and \<open>prevSlide\<close>, and every state update is followed by a render.
\<close>

datatype carousel_event = IntervalTick | ClickNext | ClickPrev

definition CreativeSlides_mount :: "SlideDescriptor list \<Rightarrow> js_error + jsnum" where
  "CreativeSlides_mount sl =
     (case CreativeSlides_render sl initialSlide of
        Inl e \<Rightarrow> Inl e
      | Inr v \<Rightarrow> Inr initialSlide)"

definition CreativeSlides_update :: "SlideDescriptor list \<Rightarrow> carousel_event \<Rightarrow> jsnum \<Rightarrow> jsnum" where
  "CreativeSlides_update sl ev currentSlide =
     (case ev of
        IntervalTick \<Rightarrow> nextSlide (length sl) currentSlide
      | ClickNext \<Rightarrow> nextSlide (length sl) currentSlide
      | ClickPrev \<Rightarrow> prevSlide (length sl) currentSlide)"

fun CreativeSlides_events :: "SlideDescriptor list \<Rightarrow> jsnum \<Rightarrow> carousel_event list \<Rightarrow> js_error + jsnum" where
  "CreativeSlides_events sl currentSlide [] = Inr currentSlide"
| "CreativeSlides_events sl currentSlide (ev # evs) =
     (let c = CreativeSlides_update sl ev currentSlide in
      case CreativeSlides_render sl c of
        Inl e \<Rightarrow> Inl e
      | Inr v \<Rightarrow> CreativeSlides_events sl c evs)"

definition CreativeSlides :: "SlideDescriptor list \<Rightarrow> carousel_event list \<Rightarrow> js_error + jsnum" where
  "CreativeSlides sl evs =
     (case CreativeSlides_mount sl of
        Inl e \<Rightarrow> Inl e
      | Inr c \<Rightarrow> CreativeSlides_events sl c evs)"

section \<open>The route table (the entry point, in src/unnamed/part_002)\<close>

text \<open>
  The entry point renders \<open>Navbar\<close> and one \<open>Routes\<close> block. A route's element is
  either a page component or \<open>Navigate\<close>, which changes the location when it is rendered.
\<close>

datatype page = Home | FAQs | About | CreateCase | TrackCase | Login

datatype route_element = Navigate string | Page page

definition Routes :: "(string \<times> route_element) list" where
  "Routes =
    [(''/'', Navigate ''/home''),
     (''/home'', Page Home),
     (''/faqs'', Page FAQs),
     (''/about'', Page About),
     (''/create-case'', Page CreateCase),
     (''/track-case'', Page TrackCase),
     (''/login'', Page Login)]"

text \<open>
  Modelled from the spec: the router library is not under src/. The spec's routing
  surface maps named paths to page-level views; all routes here are static, so a location
  selects the route whose path equals it (the first one in the table), and a location
  without a route shows no page. Rendering \<open>Navigate\<close> replaces the location and renders
  again; the fuel bounds the number of renders, and \<open>None\<close> means that it ran out.
\<close>

datatype displayed = Shows string page | NoMatch string

fun render_location :: "(string \<times> route_element) list \<Rightarrow> nat \<Rightarrow> string \<Rightarrow> displayed option" where
  "render_location rs 0 loc = None"
| "render_location rs (Suc n) loc =
     (case map_of rs loc of
        None \<Rightarrow> Some (NoMatch loc)
      | Some (Page p) \<Rightarrow> Some (Shows loc p)
      | Some (Navigate to) \<Rightarrow> render_location rs n to)"

section \<open>The schema validator\<close>

text \<open>
  A form's values are a JavaScript object from field names to strings; \<open>None\<close> is
  \<open>undefined\<close> (a missing key). A character of a \<open>string\<close> stands for one code unit, which
  is what \<open>.length\<close> counts.
\<close>

type_synonym form_values = "string \<Rightarrow> string option"

text \<open>JavaScript truthiness of a string or \<open>undefined\<close>: \<open>!v\<close> holds for \<open>undefined\<close> and
  for the empty string.\<close>

fun falsy :: "string option \<Rightarrow> bool" where
  "falsy None = True"
| "falsy (Some s) = (s = [])"

text \<open>
  Modelled from the spec: the schema validator (the validation library whose combinators
  \<open>z.string()\<close>, \<open>.min\<close>, \<open>.email\<close>, \<open>.optional\<close>, \<open>z.object\<close> and \<open>.refine\<close> the schemas are
  written with) is not under src/. The spec's validation contract gives the rules: a
  minimum length, an email-address grammar, a cross-field check whose error goes to a
  named field, and a result that is a map from field names to messages. The grammar is
  the argument \<open>g\<close> throughout. The definitions follow the library's parse: every check of
  a string runs and each failed one reports its message; a value of the wrong type (here:
  \<open>undefined\<close> where a string is required) is reported as \<open>Required\<close> and aborts the
  enclosing object; an optional field accepts \<open>undefined\<close> and otherwise parses as its inner
  schema; an object parses every field of its shape, in order; a refinement runs unless
  its object aborted.
\<close>

datatype issue = Issue (path: "string list") (message: string)

datatype parse_status = Valid | Dirty | Aborted

datatype string_check = Min nat string | Email string

fun check_ok :: "(string \<Rightarrow> bool) \<Rightarrow> string_check \<Rightarrow> string \<Rightarrow> bool" where
  "check_ok g (Min n msg) s = (n \<le> length s)"
| "check_ok g (Email msg) s = g s"

fun check_message :: "string_check \<Rightarrow> string" where
  "check_message (Min n msg) = msg"
| "check_message (Email msg) = msg"

datatype field_schema = ZString "string_check list" | ZOptional field_schema

fun parse_field :: "(string \<Rightarrow> bool) \<Rightarrow> field_schema \<Rightarrow> string option \<Rightarrow> parse_status \<times> string list" where
  "parse_field g (ZString checks) None = (Aborted, [''Required''])"
| "parse_field g (ZString checks) (Some s) =
     (let msgs = map check_message (filter (\<lambda>c. \<not> check_ok g c s) checks)
      in (if msgs = [] then Valid else Dirty, msgs))"
| "parse_field g (ZOptional inner) None = (Valid, [])"
| "parse_field g (ZOptional inner) (Some s) = parse_field g inner (Some s)"

datatype object_schema =
    ZObject "(string \<times> field_schema) list"
  | ZRefine object_schema "form_values \<Rightarrow> bool" string "string list"

definition merge_status :: "parse_status list \<Rightarrow> parse_status" where
  "merge_status sts =
     (if Aborted \<in> set sts then Aborted else if Dirty \<in> set sts then Dirty else Valid)"

fun parse_object :: "(string \<Rightarrow> bool) \<Rightarrow> object_schema \<Rightarrow> form_values \<Rightarrow> parse_status \<times> issue list" where
  "parse_object g (ZObject shape) data =
     (let rs = map (\<lambda>(k, fs). (k, parse_field g fs (data k))) shape
      in (merge_status (map (\<lambda>(k, st, msgs). st) rs),
          concat (map (\<lambda>(k, st, msgs). map (Issue [k]) msgs) rs)))"
| "parse_object g (ZRefine inner chk msg pth) data =
     (case parse_object g inner data of
        (st, iss) \<Rightarrow>
          if st = Aborted then (Aborted, iss)
          else if chk data then (st, iss)
          else (Dirty, iss @ [Issue pth msg]))"

text \<open>
  Modelled from the spec: the resolver that hands the validator's issues to the form (not
  under src/) turns them into the spec's error set, a map from field name to message.
  The key of an issue is its path joined with dots, and the first issue of a key gives the
  field's message. The errors are kept in insertion order.
\<close>

fun joinPath :: "string list \<Rightarrow> string" where
  "joinPath [] = []"
| "joinPath [p] = p"
| "joinPath (p # q # ps) = p @ ''.'' @ joinPath (q # ps)"

fun parseErrorSchema :: "issue list \<Rightarrow> (string \<times> string) list \<Rightarrow> (string \<times> string) list" where
  "parseErrorSchema [] errs = errs"
| "parseErrorSchema (i # iss) errs =
     parseErrorSchema iss
       (if map_of errs (joinPath (path i)) = None
        then errs @ [(joinPath (path i), message i)] else errs)"

definition zodResolver :: "(string \<Rightarrow> bool) \<Rightarrow> object_schema \<Rightarrow> form_values \<Rightarrow> (string \<times> string) list" where
  "zodResolver g schema data = parseErrorSchema (snd (parse_object g schema data)) []"

text \<open>
  Modelled from the spec: an email-address grammar (the spec fixes none, and the
  validator's own is not under src/). This one is the pattern of the validator library's
  3.x releases, matched without regard to case:
  \<^verbatim>\<open>^(?!\.)(?!.*\.\.)([A-Z0-9_'+\-\.]*)[A-Z0-9_+-]@([A-Z0-9][A-Z0-9\-]*\.)+[A-Z]{2,}$\<close>.
  It instantiates \<open>g\<close> at concrete inputs.
\<close>

definition is_letter :: "char \<Rightarrow> bool" where
  "is_letter c = (let n = (of_char c :: nat) in (65 \<le> n \<and> n \<le> 90) \<or> (97 \<le> n \<and> n \<le> 122))"

definition is_digit :: "char \<Rightarrow> bool" where
  "is_digit c = (let n = (of_char c :: nat) in 48 \<le> n \<and> n \<le> 57)"

definition local_char :: "char \<Rightarrow> bool" where
  "local_char c = (is_letter c \<or> is_digit c \<or> List.member ''_+-.'' c \<or> of_char c = (39 :: nat))"

definition local_end_char :: "char \<Rightarrow> bool" where
  "local_end_char c = (is_letter c \<or> is_digit c \<or> List.member ''_+-'' c)"

definition domain_label :: "string \<Rightarrow> bool" where
  "domain_label l =
     (case l of
        [] \<Rightarrow> False
      | c # cs \<Rightarrow> (is_letter c \<or> is_digit c) \<and>
          list_all (\<lambda>d. is_letter d \<or> is_digit d \<or> d = CHR ''-'') cs)"

definition top_level_name :: "string \<Rightarrow> bool" where
  "top_level_name l = (2 \<le> length l \<and> list_all is_letter l)"

fun has_dotdot :: "string \<Rightarrow> bool" where
  "has_dotdot (a # b # cs) = ((a = CHR ''.'' \<and> b = CHR ''.'') \<or> has_dotdot (b # cs))"
| "has_dotdot _ = False"

definition emailRegex :: "string \<Rightarrow> bool" where
  "emailRegex s =
     (case js_split CHR ''@'' s of
        [localPart, domainPart] \<Rightarrow>
          (case s of c # cs \<Rightarrow> c \<noteq> CHR ''.'' | [] \<Rightarrow> True) \<and> \<not> has_dotdot s \<and>
          localPart \<noteq> [] \<and> list_all local_char localPart \<and> local_end_char (last localPart) \<and>
          (let labels = js_split CHR ''.'' domainPart in
             2 \<le> length labels \<and> list_all domain_label (butlast labels) \<and>
             top_level_name (last labels))
      | _ \<Rightarrow> False)"

section \<open>The schemas of the two sign-in cards\<close>

text \<open>\<open>LoginSchema\<close>, \<open>SignupSchema\<close> and \<open>getSchema\<close> of src/unnamed/part_001.\<close>

definition LoginSchema :: object_schema where
  "LoginSchema =
     ZObject
       [(''email'', ZString [Email ''Invalid email address'']),
        (''password'', ZString [Min 8 ''Password must be at least 8 characters''])]"

definition SignupSchema_refinement :: "form_values \<Rightarrow> bool" where
  "SignupSchema_refinement data = (data ''password'' = data ''confirmPassword'')"

definition SignupSchema :: object_schema where
  "SignupSchema =
     ZRefine
       (ZObject
         [(''email'', ZString [Email ''Invalid email address'']),
          (''phoneNumber'', ZString [Min 10 ''Phone number must be at least 10 digits'']),
          (''firstName'', ZString [Min 1 ''First name is required'']),
          (''lastName'', ZString [Min 1 ''Last name is required'']),
          (''password'', ZString [Min 8 ''Password must be at least 8 characters'']),
          (''confirmPassword'', ZString [])])
       SignupSchema_refinement
       ''Passwords do not match''
       [''confirmPassword'']"

definition getSchema :: "bool \<Rightarrow> object_schema" where
  "getSchema isLogin = (if isLogin then LoginSchema else SignupSchema)"

text \<open>\<open>AuthSchema\<close> of src/unnamed/part_002, one schema for both modes.\<close>

definition AuthSchema_refinement :: "form_values \<Rightarrow> bool" where
  "AuthSchema_refinement data =
     (falsy (data ''confirmPassword'') \<or>
      data ''password'' = data ''confirmPassword'' \<or>
      falsy (data ''password''))"

definition AuthSchema :: object_schema where
  "AuthSchema =
     ZRefine
       (ZObject
         [(''name'', ZOptional (ZString [Min 1 ''Name is required''])),
          (''email'', ZString [Email ''Invalid email address'']),
          (''password'', ZString [Min 6 ''Password must be at least 6 characters'']),
          (''confirmPassword'', ZOptional (ZString []))])
       AuthSchema_refinement
       ''Passwords do not match''
       [''confirmPassword'']"


section \<open>The sign-in cards\<close>

text \<open>
  Two files define a component \<open>AuthCard\<close>: src/unnamed/part_001 (separate sign-in and
  sign-up schemas, six fields) and src/unnamed/part_002 (one schema, four fields). Their
  definitions carry the suffixes \<open>_p1\<close> and \<open>_p2\<close>. The state of a card is its three flags
  \<open>isLogin\<close>, \<open>submitting\<close> and \<open>success\<close>, the form's values and displayed errors, and the
  timeouts it has armed, each with the time at which it fires. The theme flag and the
  \<open>console.log\<close> output are left out; the submitted \<open>data\<close> is used for that output only.
\<close>

datatype timeout_callback = ApiDone_p1 | ApiDone_p2 | SuccessOff

record AuthCard =
  isLogin :: bool
  submitting :: bool
  success :: bool
  formValues :: form_values
  formErrors :: "(string \<times> string) list"
  clock :: nat
  timeouts :: "(nat \<times> timeout_callback) list"

text \<open>
  Modelled from the spec: the form library's \<open>reset\<close> is not under src/. By the spec a
  reset puts the given values in place of the field values and clears the error set.
\<close>

definition reset :: "form_values \<Rightarrow> AuthCard \<Rightarrow> AuthCard" where
  "reset vals s = s\<lparr>formValues := vals, formErrors := []\<rparr>"

text \<open>\<open>setTimeout(cb, delay)\<close>: the callback is due \<open>delay\<close> time units from now.\<close>

definition setTimeout :: "timeout_callback \<Rightarrow> nat \<Rightarrow> AuthCard \<Rightarrow> AuthCard" where
  "setTimeout cb delay s = s\<lparr>timeouts := timeouts s @ [(clock s + delay, cb)]\<rparr>"

text \<open>The \<open>defaultValues\<close> given to \<open>useForm\<close>, and the initial state of each card.\<close>

definition defaultValues_p1 :: form_values where
  "defaultValues_p1 =
     [''email'' \<mapsto> [], ''password'' \<mapsto> [], ''firstName'' \<mapsto> [],
      ''lastName'' \<mapsto> [], ''phoneNumber'' \<mapsto> [], ''confirmPassword'' \<mapsto> []]"

definition defaultValues_p2 :: form_values where
  "defaultValues_p2 =
     [''name'' \<mapsto> [], ''email'' \<mapsto> [], ''password'' \<mapsto> [], ''confirmPassword'' \<mapsto> []]"

definition AuthCard_p1 :: AuthCard where
  "AuthCard_p1 =
     \<lparr>isLogin = True, submitting = False, success = False,
      formValues = defaultValues_p1, formErrors = [], clock = 0, timeouts = []\<rparr>"

definition AuthCard_p2 :: AuthCard where
  "AuthCard_p2 =
     \<lparr>isLogin = True, submitting = False, success = False,
      formValues = defaultValues_p2, formErrors = [], clock = 0, timeouts = []\<rparr>"

text \<open>\<open>onSubmit\<close> and the two callbacks it arms, in each file.\<close>

definition onSubmit_p1 :: "form_values \<Rightarrow> AuthCard \<Rightarrow> AuthCard" where
  "onSubmit_p1 data s = setTimeout ApiDone_p1 800 (s\<lparr>submitting := True, success := False\<rparr>)"

definition onSubmit_p2 :: "form_values \<Rightarrow> AuthCard \<Rightarrow> AuthCard" where
  "onSubmit_p2 data s = setTimeout ApiDone_p2 800 (s\<lparr>submitting := True, success := False\<rparr>)"

fun run_timeout :: "timeout_callback \<Rightarrow> AuthCard \<Rightarrow> AuthCard" where
  "run_timeout ApiDone_p1 s =
     setTimeout SuccessOff 2000
       (reset [''email'' \<mapsto> [], ''password'' \<mapsto> [], ''firstName'' \<mapsto> [],
               ''lastName'' \<mapsto> [], ''phoneNumber'' \<mapsto> [], ''confirmPassword'' \<mapsto> []]
          (s\<lparr>submitting := False, success := True\<rparr>))"
| "run_timeout ApiDone_p2 s =
     setTimeout SuccessOff 2000
       (reset [''name'' \<mapsto> [], ''email'' \<mapsto> [], ''password'' \<mapsto> [], ''confirmPassword'' \<mapsto> []]
          (s\<lparr>submitting := False, success := True\<rparr>))"
| "run_timeout SuccessOff s = s\<lparr>success := False\<rparr>"

text \<open>\<open>toggleAuthMode\<close>. In part_002 \<open>reset()\<close> has no argument and restores the form's
  \<open>defaultValues\<close>.\<close>

definition toggleAuthMode_p1 :: "AuthCard \<Rightarrow> AuthCard" where
  "toggleAuthMode_p1 s =
     reset [''email'' \<mapsto> [], ''password'' \<mapsto> [], ''firstName'' \<mapsto> [],
            ''lastName'' \<mapsto> [], ''phoneNumber'' \<mapsto> [], ''confirmPassword'' \<mapsto> []]
       (s\<lparr>isLogin := \<not> isLogin s\<rparr>)"

definition toggleAuthMode_p2 :: "AuthCard \<Rightarrow> AuthCard" where
  "toggleAuthMode_p2 s = reset defaultValues_p2 (s\<lparr>isLogin := \<not> isLogin s\<rparr>)"

text \<open>
  Modelled from the spec: the form library (not under src/) validates on every field
  change, derives the error set from the field values, reports the aggregate validity flag
  \<open>isValid\<close> (the validator finds no error in the current values), and lets the submit
  handler run \<open>onSubmit\<close> only when the validator reports zero errors. The resolver of
  part_001 is \<open>zodResolver(getSchema(isLogin))\<close>, that of part_002 is
  \<open>zodResolver(AuthSchema)\<close>.
\<close>

definition resolver_p1 :: "(string \<Rightarrow> bool) \<Rightarrow> AuthCard \<Rightarrow> (string \<times> string) list" where
  "resolver_p1 g s = zodResolver g (getSchema (isLogin s)) (formValues s)"

definition resolver_p2 :: "(string \<Rightarrow> bool) \<Rightarrow> AuthCard \<Rightarrow> (string \<times> string) list" where
  "resolver_p2 g s = zodResolver g AuthSchema (formValues s)"

definition isValid_p1 :: "(string \<Rightarrow> bool) \<Rightarrow> AuthCard \<Rightarrow> bool" where
  "isValid_p1 g s = (resolver_p1 g s = [])"

definition isValid_p2 :: "(string \<Rightarrow> bool) \<Rightarrow> AuthCard \<Rightarrow> bool" where
  "isValid_p2 g s = (resolver_p2 g s = [])"

definition onChange_p1 :: "(string \<Rightarrow> bool) \<Rightarrow> string \<Rightarrow> string \<Rightarrow> AuthCard \<Rightarrow> AuthCard" where
  "onChange_p1 g field v s =
     (let s' = s\<lparr>formValues := (formValues s)(field \<mapsto> v)\<rparr>
      in s'\<lparr>formErrors := resolver_p1 g s'\<rparr>)"

definition onChange_p2 :: "(string \<Rightarrow> bool) \<Rightarrow> string \<Rightarrow> string \<Rightarrow> AuthCard \<Rightarrow> AuthCard" where
  "onChange_p2 g field v s =
     (let s' = s\<lparr>formValues := (formValues s)(field \<mapsto> v)\<rparr>
      in s'\<lparr>formErrors := resolver_p2 g s'\<rparr>)"

definition handleSubmit_p1 :: "(string \<Rightarrow> bool) \<Rightarrow> AuthCard \<Rightarrow> AuthCard" where
  "handleSubmit_p1 g s =
     (let errs = resolver_p1 g s
      in if errs = [] then onSubmit_p1 (formValues s) (s\<lparr>formErrors := []\<rparr>)
         else s\<lparr>formErrors := errs\<rparr>)"

definition handleSubmit_p2 :: "(string \<Rightarrow> bool) \<Rightarrow> AuthCard \<Rightarrow> AuthCard" where
  "handleSubmit_p2 g s =
     (let errs = resolver_p2 g s
      in if errs = [] then onSubmit_p2 (formValues s) (s\<lparr>formErrors := []\<rparr>)
         else s\<lparr>formErrors := errs\<rparr>)"

text \<open>The \<open>disabled\<close> attribute of the submit button: \<open>!isValid || submitting\<close>.\<close>

definition submitDisabled_p1 :: "(string \<Rightarrow> bool) \<Rightarrow> AuthCard \<Rightarrow> bool" where
  "submitDisabled_p1 g s = (\<not> isValid_p1 g s \<or> submitting s)"

definition submitDisabled_p2 :: "(string \<Rightarrow> bool) \<Rightarrow> AuthCard \<Rightarrow> bool" where
  "submitDisabled_p2 g s = (\<not> isValid_p2 g s \<or> submitting s)"

text \<open>
  The submission status, as the button's label shows it: \<open>Processing...\<close> while
  \<open>submitting\<close>, else \<open>Success!\<close> while \<open>success\<close>, else the mode's label.
\<close>

datatype submission_status = Idle | Submitting | Success

definition status :: "AuthCard \<Rightarrow> submission_status" where
  "status s = (if submitting s then Submitting else if success s then Success else Idle)"

text \<open>
  The passing of time, one unit at a time: the clock advances, and the timeouts that are
  due by then are taken off the list and their callbacks run, in the order in which they
  were armed. \<open>elapse n\<close> lets \<open>n\<close> units pass with no other event.
\<close>

definition tick :: "AuthCard \<Rightarrow> AuthCard" where
  "tick s =
     (let t = clock s + 1;
          fired = filter (\<lambda>(d, cb). d \<le> t) (timeouts s);
          kept = filter (\<lambda>(d, cb). \<not> d \<le> t) (timeouts s)
      in fold (\<lambda>(d, cb). run_timeout cb) fired (s\<lparr>clock := t, timeouts := kept\<rparr>))"

definition elapse :: "nat \<Rightarrow> AuthCard \<Rightarrow> AuthCard" where
  "elapse n s = (tick ^^ n) s"

section \<open>Sample inputs\<close>

text \<open>Form values and card states at which the results below are evaluated.\<close>

definition signup_values_p1 :: "string \<Rightarrow> string \<Rightarrow> form_values" where
  "signup_values_p1 pw cpw =
     [''email'' \<mapsto> ''a@b.com'', ''password'' \<mapsto> pw, ''firstName'' \<mapsto> ''Ama'',
      ''lastName'' \<mapsto> ''Mensah'', ''phoneNumber'' \<mapsto> ''0241234567'', ''confirmPassword'' \<mapsto> cpw]"

definition signup_values_p2 :: "string \<Rightarrow> string \<Rightarrow> form_values" where
  "signup_values_p2 pw cpw =
     [''name'' \<mapsto> ''Ama Mensah'', ''email'' \<mapsto> ''a@b.com'', ''password'' \<mapsto> pw,
      ''confirmPassword'' \<mapsto> cpw]"

definition signup_card_p1 :: AuthCard where
  "signup_card_p1 =
     (toggleAuthMode_p1 AuthCard_p1)\<lparr>formValues := signup_values_p1 ''abcdefgh'' ''abcdefgh''\<rparr>"

definition signup_card_p2 :: AuthCard where
  "signup_card_p2 =
     (toggleAuthMode_p2 AuthCard_p2)\<lparr>formValues := signup_values_p2 ''abcdefgh'' ''abcdefgh''\<rparr>"

text \<open>The sign-in cards after the user has typed an email address and a password.\<close>

definition signin_card_p1 :: "string \<Rightarrow> AuthCard" where
  "signin_card_p1 pw =
     onChange_p1 emailRegex ''password'' pw (onChange_p1 emailRegex ''email'' ''a@b.com'' AuthCard_p1)"

definition signin_card_p2 :: "string \<Rightarrow> AuthCard" where
  "signin_card_p2 pw =
     onChange_p2 emailRegex ''password'' pw (onChange_p2 emailRegex ''email'' ''a@b.com'' AuthCard_p2)"

section \<open>Properties of the carousel\<close>

lemma js_rem_nonneg:
  "0 \<le> a \<Longrightarrow> 0 < b \<Longrightarrow> js_rem (Num a) (Num b) = Num (a mod b)"
  by (cases "a = 0") simp_all

lemma nextSlide_Num:
  "0 < N \<Longrightarrow> 0 \<le> i \<Longrightarrow> nextSlide N (Num i) = Num ((i + 1) mod int N)"
  by (simp add: nextSlide_def js_rem_nonneg)

lemma prevSlide_Num:
  assumes "0 < N" "0 \<le> i"
  shows "prevSlide N (Num i) = Num ((i - 1 + int N) mod int N)"
proof -
  have "0 \<le> i - 1 + int N" "0 < int N"
    using assms by simp_all
  then have "js_rem (Num (i - 1 + int N)) (Num (int N)) = Num ((i - 1 + int N) mod int N)"
    by (rule js_rem_nonneg)
  then show ?thesis
    by (simp add: prevSlide_def)
qed

lemma nextSlide_iterate:
  assumes "0 < N" "0 \<le> i" "i < int N"
  shows "(nextSlide N ^^ k) (Num i) = Num ((i + int k) mod int N)"
proof (induction k)
  case 0
  from assms show ?case by simp
next
  case (Suc k)
  have "0 \<le> (i + int k) mod int N"
    using assms by simp
  then have "nextSlide N (Num ((i + int k) mod int N)) = Num (((i + int k) mod int N + 1) mod int N)"
    using assms(1) by (rule nextSlide_Num [rotated])
  also have "((i + int k) mod int N + 1) mod int N = (i + int (Suc k)) mod int N"
    by (simp add: mod_simps ac_simps)
  finally show ?case
    using Suc.IH by simp
qed

text \<open>
  C4. For every slide count \<open>N \<ge> 1\<close> and every starting index \<open>i\<close> with \<open>0 \<le> i < N\<close>,
  applying \<open>nextSlide\<close> (the advance operation, \<open>(prev + 1) % N\<close>) \<open>N\<close> times brings the
  index back to \<open>i\<close>.
\<close>

theorem advance_cyclic_closure:
  assumes "1 \<le> N" "0 \<le> i" "i < int N"
  shows "(nextSlide N ^^ N) (Num i) = Num i"
proof -
  have "(nextSlide N ^^ N) (Num i) = Num ((i + int N) mod int N)"
    using assms by (intro nextSlide_iterate) simp_all
  also have "(i + int N) mod int N = i"
    using assms by simp
  finally show ?thesis .
qed

theorem advance_cyclic_closure_witness:
  "(1::nat) \<le> length slides \<and> (0::int) \<le> 2 \<and> (2::int) < int (length slides)
   \<and> (nextSlide (length slides) ^^ length slides) (Num 2) = Num 2"
proof -
  have len: "length slides = 4"
    by (simp add: slides_def)
  have "(nextSlide 4 ^^ 4) (Num 2) = Num 2"
    by (rule advance_cyclic_closure) simp_all
  then show ?thesis
    unfolding len by simp
qed

text \<open>
  C5. For every slide count \<open>N \<ge> 1\<close> the initial index \<open>0\<close> lies in \<open>[0, N)\<close>, and from every
  index in \<open>[0, N)\<close> both \<open>nextSlide\<close> (advance) and \<open>prevSlide\<close> (retreat) stay in \<open>[0, N)\<close>;
  retreat followed by advance, and advance followed by retreat, return to the original index.
\<close>

theorem carousel_index_invariant:
  assumes "1 \<le> N"
  shows "in_range N initialSlide \<and>
    (in_range N c \<longrightarrow>
       in_range N (nextSlide N c) \<and> in_range N (prevSlide N c) \<and>
       nextSlide N (prevSlide N c) = c \<and> prevSlide N (nextSlide N c) = c)"
proof (intro conjI impI)
  show "in_range N initialSlide"
    using assms by (simp add: initialSlide_def)
next
  from assms have N: "0 < N" by simp
  {
    assume "in_range N c"
    then obtain i where c: "c = Num i" and i: "0 \<le> i" "i < int N"
      by (cases c) simp_all
    have nx: "nextSlide N c = Num ((i + 1) mod int N)"
      using N i c by (simp add: nextSlide_Num)
    have pv: "prevSlide N c = Num ((i - 1 + int N) mod int N)"
      using N i c by (simp add: prevSlide_Num)
    show "in_range N (nextSlide N c)"
      using N by (simp add: nx)
    show "in_range N (prevSlide N c)"
      using N by (simp add: pv)
    have "nextSlide N (prevSlide N c) = Num (((i - 1 + int N) mod int N + 1) mod int N)"
      using N by (simp add: pv nextSlide_Num)
    also have "((i - 1 + int N) mod int N + 1) mod int N = (i - 1 + int N + 1) mod int N"
      by (simp add: mod_add_left_eq)
    also have "\<dots> = i"
      using i by simp
    finally show "nextSlide N (prevSlide N c) = c"
      using c by simp
    have "prevSlide N (nextSlide N c) = Num (((i + 1) mod int N - 1 + int N) mod int N)"
      using N by (simp add: nx prevSlide_Num)
    also have "((i + 1) mod int N - 1 + int N) mod int N = ((i + 1) mod int N + (int N - 1)) mod int N"
      by (simp add: algebra_simps)
    also have "\<dots> = (i + 1 + (int N - 1)) mod int N"
      by (simp add: mod_add_left_eq)
    also have "\<dots> = i"
      using i by simp
    finally show "prevSlide N (nextSlide N c) = c"
      using c by simp
  }
qed

theorem carousel_index_invariant_witness:
  "(1::nat) \<le> length slides \<and> in_range (length slides) initialSlide \<and>
   in_range (length slides) (Num 3) \<and>
   in_range (length slides) (nextSlide (length slides) (Num 3)) \<and>
   in_range (length slides) (prevSlide (length slides) (Num 3)) \<and>
   nextSlide (length slides) (prevSlide (length slides) (Num 3)) = Num 3 \<and>
   prevSlide (length slides) (nextSlide (length slides) (Num 3)) = Num 3"
proof -
  have len: "length slides = 4"
    by (simp add: slides_def)
  have one: "(1::nat) \<le> 4"
    by simp
  have "in_range 4 (Num 3)"
    by simp
  with carousel_index_invariant [OF one, of "Num 3"] show ?thesis
    unfolding len by simp
qed

lemma CreativeSlides_render_empty:
  "CreativeSlides_render [] c = Inl TypeError"
  by (cases c) (simp_all add: CreativeSlides_render_def)

text \<open>
  C3. With an empty slide list (\<open>N = 0\<close>) constructing the carousel fails at once: the
  first render throws, so mounting yields the error and no event (interval tick or click)
  is ever handled, whatever events are offered; hence \<open>nextSlide\<close> is never evaluated with
  \<open>0\<close> as the modulus. Conversely a carousel that was constructed has \<open>N \<ge> 1\<close>.
\<close>

theorem empty_slides_fail_at_construction:
  "CreativeSlides_mount [] = Inl TypeError \<and>
   CreativeSlides [] evs = Inl TypeError \<and>
   (CreativeSlides_mount sl = Inr c \<longrightarrow> 1 \<le> length sl)"
proof (intro conjI impI)
  show m: "CreativeSlides_mount [] = Inl TypeError"
    by (simp add: CreativeSlides_mount_def CreativeSlides_render_empty)
  show "CreativeSlides [] evs = Inl TypeError"
    by (simp add: CreativeSlides_def m)
  assume "CreativeSlides_mount sl = Inr c"
  then have "sl \<noteq> []"
    using m by auto
  then show "1 \<le> length sl"
    by (cases sl) simp_all
qed

theorem empty_slides_fail_at_construction_witness:
  "CreativeSlides_mount [] = Inl TypeError \<and>
   CreativeSlides [] [IntervalTick, ClickNext] = Inl TypeError \<and>
   CreativeSlides_mount slides = Inr (Num 0) \<and> 1 \<le> length slides"
proof -
  have mnt: "CreativeSlides_mount slides = Inr (Num 0)"
    by (simp add: CreativeSlides_mount_def CreativeSlides_render_def initialSlide_def slides_def)
  with empty_slides_fail_at_construction [of "[IntervalTick, ClickNext]" slides "Num 0"]
  show ?thesis
    by simp
qed

section \<open>Properties of the schemas\<close>

lemma map_of_snoc:
  "map_of (errs @ [(a, b)]) k =
     (case map_of errs k of Some m \<Rightarrow> Some m | None \<Rightarrow> if k = a then Some b else None)"
  by (induction errs) auto

lemma map_of_parseErrorSchema:
  "map_of (parseErrorSchema iss errs) k =
     (case map_of errs k of
        Some m \<Rightarrow> Some m
      | None \<Rightarrow> map_option message (find (\<lambda>i. joinPath (path i) = k) iss))"
proof (induction iss arbitrary: errs)
  case Nil
  show ?case by (simp split: option.splits)
next
  case (Cons i iss)
  show ?case
  proof (cases "map_of errs (joinPath (path i))")
    case None
    then show ?thesis
      by (cases "map_of errs k") (auto simp: Cons.IH map_of_snoc simp del: map_of_append)
  next
    case (Some m)
    then show ?thesis
      by (cases "map_of errs k") (auto simp: Cons.IH)
  qed
qed

lemma parseErrorSchema_not_Nil:
  "errs \<noteq> [] \<Longrightarrow> parseErrorSchema iss errs \<noteq> []"
  by (induction iss arbitrary: errs) simp_all

lemma parseErrorSchema_Nil_iff:
  "parseErrorSchema iss errs = [] \<longleftrightarrow> iss = [] \<and> errs = []"
proof (cases iss)
  case Nil
  then show ?thesis by simp
next
  case (Cons i iss')
  have "parseErrorSchema iss' (if map_of errs (joinPath (path i)) = None
        then errs @ [(joinPath (path i), message i)] else errs) \<noteq> []"
    by (rule parseErrorSchema_not_Nil) (cases errs; simp)
  with Cons show ?thesis by simp
qed

lemma zodResolver_lookup:
  "map_of (zodResolver g schema data) k =
     map_option message (find (\<lambda>i. joinPath (path i) = k) (snd (parse_object g schema data)))"
  by (simp add: zodResolver_def map_of_parseErrorSchema)

lemma zodResolver_Nil_iff:
  "zodResolver g schema data = [] \<longleftrightarrow> snd (parse_object g schema data) = []"
  by (simp add: zodResolver_def parseErrorSchema_Nil_iff)

lemma find_append:
  "find P (xs @ ys) = (case find P xs of None \<Rightarrow> find P ys | Some x \<Rightarrow> Some x)"
  by (induction xs) auto

lemma find_field_issues:
  "find (\<lambda>i. joinPath (path i) = k') (map (Issue [k]) msgs) =
     (if k = k' then (case msgs of [] \<Rightarrow> None | m # _ \<Rightarrow> Some (Issue [k] m)) else None)"
  by (induction msgs) (auto split: list.splits)


lemma login_password_5:
  assumes "data ''password'' = Some pw" "length pw = 5"
  shows "map_of (zodResolver g LoginSchema data) ''password'' = Some ''Password must be at least 8 characters''"
  using assms
  by (cases "data ''email''")
     (simp_all add: zodResolver_lookup LoginSchema_def find_append find_field_issues Let_def split: option.splits)

lemma login_accepts:
  assumes "data ''email'' = Some e" "g e" "data ''password'' = Some pw" "8 \<le> length pw"
  shows "zodResolver g LoginSchema data = []"
  using assms by (simp add: zodResolver_def LoginSchema_def merge_status_def)

lemma signup_issues:
  assumes "data ''email'' = Some e" "data ''phoneNumber'' = Some ph" "data ''firstName'' = Some fn"
    "data ''lastName'' = Some ln" "data ''password'' = Some pw" "data ''confirmPassword'' = Some cpw"
  shows "snd (parse_object g SignupSchema data) =
     map (Issue [''email'']) (if g e then [] else [''Invalid email address'']) @
     map (Issue [''phoneNumber'']) (if 10 \<le> length ph then [] else [''Phone number must be at least 10 digits'']) @
     map (Issue [''firstName'']) (if 1 \<le> length fn then [] else [''First name is required'']) @
     map (Issue [''lastName'']) (if 1 \<le> length ln then [] else [''Last name is required'']) @
     map (Issue [''password'']) (if 8 \<le> length pw then [] else [''Password must be at least 8 characters'']) @
     (if pw = cpw then [] else [Issue [''confirmPassword''] ''Passwords do not match''])"
  using assms
  by (simp add: SignupSchema_def SignupSchema_refinement_def merge_status_def Let_def)


lemma auth_issues:
  assumes "data ''email'' = Some e" "data ''password'' = Some pw"
  shows "snd (parse_object g AuthSchema data) =
     map (Issue [''name'']) (case data ''name'' of None \<Rightarrow> [] | Some n \<Rightarrow> if 1 \<le> length n then [] else [''Name is required'']) @
     map (Issue [''email'']) (if g e then [] else [''Invalid email address'']) @
     map (Issue [''password'']) (if 6 \<le> length pw then [] else [''Password must be at least 6 characters'']) @
     (if AuthSchema_refinement data then [] else [Issue [''confirmPassword''] ''Passwords do not match''])"
  using assms
  by (cases "data ''name''"; cases "data ''confirmPassword''")
     (simp_all add: AuthSchema_def merge_status_def Let_def)

text \<open>
  C9. In the card of part_002, whose schema makes \<open>confirmPassword\<close> optional, every input
  with an empty password (the empty string, or no value at all) passes the cross-field
  check whatever \<open>confirmPassword\<close> holds: the validator raises no
  \<open>Passwords do not match\<close> issue and the error set has no entry for \<open>confirmPassword\<close>.
\<close>

theorem empty_password_passes_match_check:
  assumes "falsy (data ''password'')"
  shows "AuthSchema_refinement data \<and>
         Issue [''confirmPassword''] ''Passwords do not match'' \<notin> set (snd (parse_object g AuthSchema data)) \<and>
         map_of (zodResolver g AuthSchema data) ''confirmPassword'' = None"
proof -
  have r: "AuthSchema_refinement data"
    using assms by (simp add: AuthSchema_refinement_def)
  have "find (\<lambda>i. joinPath (path i) = ''confirmPassword'') (snd (parse_object g AuthSchema data)) = None
        \<and> Issue [''confirmPassword''] ''Passwords do not match'' \<notin> set (snd (parse_object g AuthSchema data))"
  proof (cases "data ''password''")
    case None
    then show ?thesis
      by (cases "data ''name''"; cases "data ''confirmPassword''"; cases "data ''email''")
         (simp_all add: AuthSchema_def merge_status_def Let_def)
  next
    case (Some pw)
    show ?thesis
    proof (cases "data ''email''")
      case None
      with Some show ?thesis
        by (cases "data ''name''"; cases "data ''confirmPassword''")
           (simp_all add: AuthSchema_def merge_status_def Let_def)
    next
      case (Some e)
      with \<open>data ''password'' = Some pw\<close> r show ?thesis
        by (cases "data ''name''")
           (simp_all add: auth_issues find_append find_field_issues)
    qed
  qed
  with r show ?thesis
    by (simp add: zodResolver_lookup)
qed

text \<open>
  C2, as amended. For every sign-up input whose \<open>password\<close> and \<open>confirmPassword\<close> are
  strings that differ: under \<open>SignupSchema\<close> (part_001), when the other four fields hold
  strings, the error set maps \<open>confirmPassword\<close> to \<open>Passwords do not match\<close>, and it has
  no entry for \<open>password\<close> exactly when the password has at least 8 characters; under
  \<open>AuthSchema\<close> (part_002), when the email holds a string and both passwords are
  non-empty, the same holds with 6 in place of 8.
\<close>

theorem mismatch_reported_on_confirmPassword:
  assumes "data ''password'' = Some pw" "data ''confirmPassword'' = Some cpw" "pw \<noteq> cpw"
  shows
   "(data ''email'' \<noteq> None \<and> data ''phoneNumber'' \<noteq> None \<and> data ''firstName'' \<noteq> None \<and>
     data ''lastName'' \<noteq> None \<longrightarrow>
       map_of (zodResolver g SignupSchema data) ''confirmPassword'' = Some ''Passwords do not match'' \<and>
       (map_of (zodResolver g SignupSchema data) ''password'' = None \<longleftrightarrow> 8 \<le> length pw)) \<and>
    (data ''email'' \<noteq> None \<and> pw \<noteq> [] \<and> cpw \<noteq> [] \<longrightarrow>
       map_of (zodResolver g AuthSchema data) ''confirmPassword'' = Some ''Passwords do not match'' \<and>
       (map_of (zodResolver g AuthSchema data) ''password'' = None \<longleftrightarrow> 6 \<le> length pw))"
proof (intro conjI impI)
  assume "data ''email'' \<noteq> None \<and> data ''phoneNumber'' \<noteq> None \<and> data ''firstName'' \<noteq> None \<and>
     data ''lastName'' \<noteq> None"
  then obtain e ph fn ln where d: "data ''email'' = Some e" "data ''phoneNumber'' = Some ph"
     "data ''firstName'' = Some fn" "data ''lastName'' = Some ln"
    by auto
  note iss = signup_issues [OF d assms(1,2), of g]
  show "map_of (zodResolver g SignupSchema data) ''confirmPassword'' = Some ''Passwords do not match''"
    using assms(3) by (simp add: zodResolver_lookup iss find_append find_field_issues)
  show "map_of (zodResolver g SignupSchema data) ''password'' = None \<longleftrightarrow> 8 \<le> length pw"
    using assms(3) by (simp add: zodResolver_lookup iss find_append find_field_issues)
next
  assume "data ''email'' \<noteq> None \<and> pw \<noteq> [] \<and> cpw \<noteq> []"
  then obtain e where d: "data ''email'' = Some e" and ne: "pw \<noteq> []" "cpw \<noteq> []"
    by auto
  have r: "\<not> AuthSchema_refinement data"
    using assms ne by (simp add: AuthSchema_refinement_def)
  note iss = auth_issues [OF d assms(1), of g]
  show "map_of (zodResolver g AuthSchema data) ''confirmPassword'' = Some ''Passwords do not match''"
    using r by (cases "data ''name''") (simp_all add: zodResolver_lookup iss find_append find_field_issues)
  show "map_of (zodResolver g AuthSchema data) ''password'' = None \<longleftrightarrow> 6 \<le> length pw"
    using r by (cases "data ''name''") (simp_all add: zodResolver_lookup iss find_append find_field_issues)
qed

lemma emailRegex_sample: "emailRegex ''a@b.com''"
  by (simp add: emailRegex_def local_char_def local_end_char_def is_letter_def is_digit_def
      domain_label_def top_level_name_def)


text \<open>
  C2 as stated fails. Under \<open>SignupSchema\<close>, with the differing passwords \<open>abc\<close> and \<open>abd\<close>
  and every other field valid, the \<open>password\<close> field carries an error of its own. Under
  \<open>AuthSchema\<close>, with the password \<open>abcdefgh\<close> and an empty \<open>confirmPassword\<close>,
  \<open>confirmPassword\<close> carries no error.
\<close>

theorem mismatch_claim_counterexample:
  "map_of (zodResolver emailRegex SignupSchema (signup_values_p1 ''abc'' ''abd'')) ''password''
     = Some ''Password must be at least 8 characters'' \<and>
   map_of (zodResolver emailRegex AuthSchema (signup_values_p2 ''abcdefgh'' [])) ''confirmPassword''
     = None"
  by (simp add: zodResolver_def signup_values_p1_def signup_values_p2_def SignupSchema_def
      AuthSchema_def SignupSchema_refinement_def AuthSchema_refinement_def merge_status_def
      emailRegex_sample)

theorem mismatch_reported_on_confirmPassword_witness:
  "map_of (zodResolver emailRegex SignupSchema (signup_values_p1 ''abcdefgh'' ''abcdefgx'')) ''confirmPassword''
     = Some ''Passwords do not match'' \<and>
   map_of (zodResolver emailRegex SignupSchema (signup_values_p1 ''abcdefgh'' ''abcdefgx'')) ''password'' = None \<and>
   map_of (zodResolver emailRegex AuthSchema (signup_values_p2 ''abcdefgh'' ''abcdefgx'')) ''confirmPassword''
     = Some ''Passwords do not match'' \<and>
   map_of (zodResolver emailRegex AuthSchema (signup_values_p2 ''abcdefgh'' ''abcdefgx'')) ''password'' = None"
  using mismatch_reported_on_confirmPassword
          [of "signup_values_p1 ''abcdefgh'' ''abcdefgx''" "''abcdefgh''" "''abcdefgx''" emailRegex]
        mismatch_reported_on_confirmPassword
          [of "signup_values_p2 ''abcdefgh'' ''abcdefgx''" "''abcdefgh''" "''abcdefgx''" emailRegex]
  by (simp add: signup_values_p1_def signup_values_p2_def)

theorem empty_password_passes_match_check_witness:
  "falsy (signup_values_p2 [] ''abcdefgx'' ''password'') \<and>
   AuthSchema_refinement (signup_values_p2 [] ''abcdefgx'') \<and>
   Issue [''confirmPassword''] ''Passwords do not match''
     \<notin> set (snd (parse_object emailRegex AuthSchema (signup_values_p2 [] ''abcdefgx''))) \<and>
   map_of (zodResolver emailRegex AuthSchema (signup_values_p2 [] ''abcdefgx'')) ''confirmPassword'' = None"
proof -
  have f: "falsy (signup_values_p2 [] ''abcdefgx'' ''password'')"
    by (simp add: signup_values_p2_def)
  from f empty_password_passes_match_check [of "signup_values_p2 [] ''abcdefgx''" emailRegex]
  show ?thesis
    by simp
qed


text \<open>
  C7. In sign-in mode (part_001), for every input whose password has length 5, the
  validator's error set has an entry for \<open>password\<close>, the validity flag is false, and the
  submit button's \<open>disabled\<close> attribute \<open>!isValid || submitting\<close> is true.
\<close>

theorem short_password_disables_submit:
  assumes "isLogin s" "formValues s ''password'' = Some pw" "length pw = 5"
  shows "map_of (resolver_p1 g s) ''password'' = Some ''Password must be at least 8 characters'' \<and>
         \<not> isValid_p1 g s \<and> submitDisabled_p1 g s"
proof -
  have e: "map_of (resolver_p1 g s) ''password'' = Some ''Password must be at least 8 characters''"
    using assms by (simp add: resolver_p1_def getSchema_def login_password_5)
  then have "resolver_p1 g s \<noteq> []"
    by auto
  with e show ?thesis
    by (simp add: isValid_p1_def submitDisabled_p1_def)
qed

theorem short_password_disables_submit_witness:
  "isLogin (signin_card_p1 ''abcde'') \<and>
   formValues (signin_card_p1 ''abcde'') ''password'' = Some ''abcde'' \<and>
   length ''abcde'' = 5 \<and>
   map_of (resolver_p1 emailRegex (signin_card_p1 ''abcde'')) ''password''
     = Some ''Password must be at least 8 characters'' \<and>
   \<not> isValid_p1 emailRegex (signin_card_p1 ''abcde'') \<and>
   submitDisabled_p1 emailRegex (signin_card_p1 ''abcde'')"
proof -
  have h: "isLogin (signin_card_p1 ''abcde'')"
    "formValues (signin_card_p1 ''abcde'') ''password'' = Some ''abcde''"
    "length ''abcde'' = 5"
    by (simp_all add: signin_card_p1_def onChange_p1_def AuthCard_p1_def Let_def)
  from h short_password_disables_submit [OF h, of emailRegex] show ?thesis
    by simp
qed

lemma short_password_p2:
  assumes "formValues s ''password'' = Some pw" "length pw = 5"
  shows "map_of (resolver_p2 g s) ''password'' = Some ''Password must be at least 6 characters'' \<and>
         \<not> isValid_p2 g s \<and> submitDisabled_p2 g s"
proof -
  have "find (\<lambda>i. joinPath (path i) = ''password'') (snd (parse_object g AuthSchema (formValues s)))
          = Some (Issue [''password''] ''Password must be at least 6 characters'')"
    using assms
    by (cases "formValues s ''name''"; cases "formValues s ''confirmPassword''"; cases "formValues s ''email''")
       (simp_all add: AuthSchema_def merge_status_def Let_def)
  then have e: "map_of (resolver_p2 g s) ''password'' = Some ''Password must be at least 6 characters''"
    by (simp add: resolver_p2_def zodResolver_lookup)
  then have "resolver_p2 g s \<noteq> []"
    by auto
  with e show ?thesis
    by (simp add: isValid_p2_def submitDisabled_p2_def)
qed

lemma signin_accepted_p1:
  assumes "isLogin s" "formValues s ''email'' = Some ''a@b.com''" "g ''a@b.com''"
    "formValues s ''password'' = Some pw" "length pw = 8"
  shows "resolver_p1 g s = [] \<and> isValid_p1 g s"
  using assms by (simp add: isValid_p1_def resolver_p1_def getSchema_def login_accepts)

text \<open>
  C8, evaluated on the card of part_002. In sign-in mode, after the email \<open>a@b.com\<close> and
  the eight-character password \<open>abcdefgh\<close> have been typed into the initial form, the
  \<open>name\<close> field still holds its default, the empty string; \<open>AuthSchema\<close> rejects it, so the
  error set holds \<open>Name is required\<close> and the validity flag is false.
\<close>

theorem signin_rejected_p2:
  "isLogin (signin_card_p2 ''abcdefgh'') \<and>
   formValues (signin_card_p2 ''abcdefgh'') = defaultValues_p2(''email'' \<mapsto> ''a@b.com'', ''password'' \<mapsto> ''abcdefgh'') \<and>
   resolver_p2 emailRegex (signin_card_p2 ''abcdefgh'') = [(''name'', ''Name is required'')] \<and>
   isValid_p2 emailRegex (signin_card_p2 ''abcdefgh'') = False"
  by (simp add: signin_card_p2_def onChange_p2_def AuthCard_p2_def Let_def resolver_p2_def
      isValid_p2_def defaultValues_p2_def zodResolver_def AuthSchema_def AuthSchema_refinement_def
      merge_status_def emailRegex_sample)

lemma signin_accepted_p1_sample:
  "resolver_p1 emailRegex (signin_card_p1 ''abcdefgh'') = [] \<and> isValid_p1 emailRegex (signin_card_p1 ''abcdefgh'')"
  by (rule signin_accepted_p1 [where pw = "''abcdefgh''"])
     (simp_all add: signin_card_p1_def onChange_p1_def AuthCard_p1_def Let_def emailRegex_sample)

section \<open>Properties of the route table\<close>

text \<open>
  C10. The route table maps the root path \<open>/\<close> to a navigation to \<open>/home\<close>; rendering the
  location \<open>/\<close> therefore ends at the location \<open>/home\<close> showing the \<open>Home\<close> page, the same
  result as rendering \<open>/home\<close> itself, as soon as two renders are allowed.
\<close>

theorem root_redirects_to_home:
  "map_of Routes ''/'' = Some (Navigate ''/home'') \<and>
   render_location Routes (Suc (Suc n)) ''/'' = Some (Shows ''/home'' Home) \<and>
   render_location Routes (Suc n) ''/home'' = Some (Shows ''/home'' Home)"
  by (simp add: Routes_def)

section \<open>Properties of the sign-in cards\<close>

text \<open>
  C6. Toggling the mode, from any state of either card, flips \<open>isLogin\<close>, leaves every
  field of the form holding the empty string and no other value, and empties the error set.
\<close>

theorem toggle_clears_form:
  "isLogin (toggleAuthMode_p1 s) = (\<not> isLogin s) \<and>
   formValues (toggleAuthMode_p1 s) = defaultValues_p1 \<and>
   formValues (toggleAuthMode_p1 s) f =
     (if f \<in> {''email'', ''password'', ''firstName'', ''lastName'', ''phoneNumber'', ''confirmPassword''}
      then Some [] else None) \<and>
   formErrors (toggleAuthMode_p1 s) = [] \<and>
   isLogin (toggleAuthMode_p2 s) = (\<not> isLogin s) \<and>
   formValues (toggleAuthMode_p2 s) = defaultValues_p2 \<and>
   formValues (toggleAuthMode_p2 s) f =
     (if f \<in> {''name'', ''email'', ''password'', ''confirmPassword''} then Some [] else None) \<and>
   formErrors (toggleAuthMode_p2 s) = []"
  by (simp add: toggleAuthMode_p1_def toggleAuthMode_p2_def reset_def defaultValues_p1_def
      defaultValues_p2_def)

theorem toggle_clears_form_witness:
  "formErrors (signin_card_p1 ''abcde'') = [(''password'', ''Password must be at least 8 characters'')] \<and>
   formValues (signin_card_p1 ''abcde'') ''password'' = Some ''abcde'' \<and>
   \<not> isLogin (toggleAuthMode_p1 (signin_card_p1 ''abcde'')) \<and>
   formValues (toggleAuthMode_p1 (signin_card_p1 ''abcde'')) ''password'' = Some [] \<and>
   formValues (toggleAuthMode_p1 (signin_card_p1 ''abcde'')) ''email'' = Some [] \<and>
   formErrors (toggleAuthMode_p1 (signin_card_p1 ''abcde'')) = [] \<and>
   formValues (toggleAuthMode_p2 (signin_card_p2 ''abcde'')) ''password'' = Some [] \<and>
   formValues (toggleAuthMode_p2 (signin_card_p2 ''abcde'')) ''email'' = Some [] \<and>
   formErrors (toggleAuthMode_p2 (signin_card_p2 ''abcde'')) = []"
proof -
  have "formErrors (signin_card_p1 ''abcde'') = [(''password'', ''Password must be at least 8 characters'')]"
    "formValues (signin_card_p1 ''abcde'') ''password'' = Some ''abcde''"
    "isLogin (signin_card_p1 ''abcde'')"
    by (simp_all add: signin_card_p1_def onChange_p1_def AuthCard_p1_def Let_def resolver_p1_def
        getSchema_def zodResolver_def LoginSchema_def defaultValues_p1_def merge_status_def
        emailRegex_sample)
  with toggle_clears_form [of "signin_card_p1 ''abcde''" "''password''"]
       toggle_clears_form [of "signin_card_p1 ''abcde''" "''email''"]
       toggle_clears_form [of "signin_card_p2 ''abcde''" "''password''"]
       toggle_clears_form [of "signin_card_p2 ''abcde''" "''email''"]
  show ?thesis
    by (simp add: defaultValues_p1_def defaultValues_p2_def)
qed

lemma tick_quiet:
  assumes "list_all (\<lambda>(d, cb). clock s + 1 < d) (timeouts s)"
  shows "tick s = s\<lparr>clock := clock s + 1\<rparr>"
proof -
  have "filter (\<lambda>(d, cb). d \<le> clock s + 1) (timeouts s) = []"
    using assms by (induction "timeouts s") (auto simp: list_all_iff filter_empty_conv)
  moreover have "filter (\<lambda>(d, cb). \<not> d \<le> clock s + 1) (timeouts s) = timeouts s"
    using assms by (auto simp: list_all_iff filter_id_conv)
  ultimately show ?thesis
    by (simp add: tick_def Let_def)
qed

lemma elapse_Suc: "elapse (Suc k) s = tick (elapse k s)"
  by (simp add: elapse_def)

lemma elapse_add: "elapse (a + b) s = elapse b (elapse a s)"
proof -
  have "(tick ^^ (b + a)) s = (tick ^^ b) ((tick ^^ a) s)"
    by (simp only: funpow_add o_apply)
  then show ?thesis
    by (simp only: elapse_def add.commute [of a b])
qed

lemma elapse_quiet:
  assumes "list_all (\<lambda>(d, cb). clock s + k < d) (timeouts s)"
  shows "elapse k s = s\<lparr>clock := clock s + k\<rparr>"
  using assms
proof (induction k)
  case 0
  show ?case by (simp add: elapse_def)
next
  case (Suc k)
  have "list_all (\<lambda>(d, cb). clock s + k < d) (timeouts s)"
    using Suc.prems by (auto simp: list_all_iff)
  then have e: "elapse k s = s\<lparr>clock := clock s + k\<rparr>"
    by (rule Suc.IH)
  have "tick (s\<lparr>clock := clock s + k\<rparr>) = s\<lparr>clock := clock s + k\<rparr>\<lparr>clock := clock s + k + 1\<rparr>"
    using Suc.prems by (subst tick_quiet) (auto simp: list_all_iff)
  then show ?case
    by (simp add: elapse_Suc e)
qed

lemma elapse_fires:
  assumes "timeouts s = [(clock s + Suc k, cb)]"
  shows "elapse (Suc k) s = run_timeout cb (s\<lparr>clock := clock s + Suc k, timeouts := []\<rparr>)"
proof -
  have "elapse k s = s\<lparr>clock := clock s + k\<rparr>"
    using assms by (intro elapse_quiet) simp
  then show ?thesis
    using assms by (simp add: elapse_Suc tick_def Let_def)
qed

lemma timeline:
  assumes "timeouts s = []"
    and cb: "\<And>u. run_timeout cb u = setTimeout SuccessOff 2000 (reset vals (u\<lparr>submitting := False, success := True\<rparr>))"
  shows "t < 800 \<Longrightarrow> elapse t (setTimeout cb 800 (s\<lparr>submitting := True, success := False\<rparr>)) =
           s\<lparr>submitting := True, success := False, clock := clock s + t, timeouts := [(clock s + 800, cb)]\<rparr>"
    and "800 \<le> t \<Longrightarrow> t < 2800 \<Longrightarrow> elapse t (setTimeout cb 800 (s\<lparr>submitting := True, success := False\<rparr>)) =
           s\<lparr>submitting := False, success := True, formValues := vals, formErrors := [],
             clock := clock s + t, timeouts := [(clock s + 2800, SuccessOff)]\<rparr>"
    and "2800 \<le> t \<Longrightarrow> elapse t (setTimeout cb 800 (s\<lparr>submitting := True, success := False\<rparr>)) =
           s\<lparr>submitting := False, success := False, formValues := vals, formErrors := [],
             clock := clock s + t, timeouts := []\<rparr>"
proof -
  let ?s1 = "setTimeout cb 800 (s\<lparr>submitting := True, success := False\<rparr>)"
  let ?s2 = "s\<lparr>submitting := False, success := True, formValues := vals, formErrors := [],
             clock := clock s + 800, timeouts := [(clock s + 2800, SuccessOff)]\<rparr>"
  let ?s3 = "s\<lparr>submitting := False, success := False, formValues := vals, formErrors := [],
             clock := clock s + 2800, timeouts := []\<rparr>"
  have s1: "?s1 = s\<lparr>submitting := True, success := False, timeouts := [(clock s + 800, cb)]\<rparr>"
    using assms(1) by (simp add: setTimeout_def)
  show q1: "elapse t ?s1 = s\<lparr>submitting := True, success := False, clock := clock s + t, timeouts := [(clock s + 800, cb)]\<rparr>"
    if "t < 800"
    using that unfolding s1 by (subst elapse_quiet) simp_all
  have "elapse (Suc 799) ?s1 = run_timeout cb (?s1\<lparr>clock := clock ?s1 + Suc 799, timeouts := []\<rparr>)"
    unfolding s1 by (rule elapse_fires) simp
  then have e800: "elapse 800 ?s1 = ?s2"
    unfolding s1 by (simp add: cb setTimeout_def reset_def)
  show q2: "elapse t ?s1 = s\<lparr>submitting := False, success := True, formValues := vals, formErrors := [],
             clock := clock s + t, timeouts := [(clock s + 2800, SuccessOff)]\<rparr>"
    if "800 \<le> t" "t < 2800"
  proof -
    have "elapse (800 + (t - 800)) ?s1 = elapse (t - 800) ?s2"
      by (simp only: elapse_add e800)
    also have "\<dots> = ?s2\<lparr>clock := clock ?s2 + (t - 800)\<rparr>"
      using that by (intro elapse_quiet) simp
    finally show ?thesis
      using that by simp
  qed
  have "elapse (Suc 1999) ?s2 = run_timeout SuccessOff (?s2\<lparr>clock := clock ?s2 + Suc 1999, timeouts := []\<rparr>)"
    by (rule elapse_fires) simp
  then have "elapse 2000 ?s2 = ?s3"
    by simp
  then have e2800: "elapse 2800 ?s1 = ?s3"
    using elapse_add [of 800 2000 ?s1] by (simp add: e800)
  show "elapse t ?s1 = s\<lparr>submitting := False, success := False, formValues := vals, formErrors := [],
             clock := clock s + t, timeouts := []\<rparr>"
    if "2800 \<le> t"
  proof -
    have "elapse (2800 + (t - 2800)) ?s1 = elapse (t - 2800) ?s3"
      by (simp only: elapse_add e2800)
    also have "\<dots> = ?s3\<lparr>clock := clock ?s3 + (t - 2800)\<rparr>"
      by (intro elapse_quiet) simp
    finally show ?thesis
      using that by simp
  qed
qed


lemma handleSubmit_p1_valid:
  "isValid_p1 g s \<Longrightarrow> handleSubmit_p1 g s =
     setTimeout ApiDone_p1 800 (s\<lparr>formErrors := []\<rparr>\<lparr>submitting := True, success := False\<rparr>)"
  by (simp add: handleSubmit_p1_def isValid_p1_def onSubmit_p1_def)

lemma handleSubmit_p2_valid:
  "isValid_p2 g s \<Longrightarrow> handleSubmit_p2 g s =
     setTimeout ApiDone_p2 800 (s\<lparr>formErrors := []\<rparr>\<lparr>submitting := True, success := False\<rparr>)"
  by (simp add: handleSubmit_p2_def isValid_p2_def onSubmit_p2_def)

text \<open>
  C1, as amended. When the submit handler runs on a schema-valid sign-up form of an idle
  card with no timeout pending, and nothing else happens: for the first 800 time units
  the status is \<open>Submitting\<close>, the field values are those that were submitted, and the
  submit button is disabled; from 800 up to 2800 time units the status is \<open>Success\<close> and
  every field value has been reset to the empty string; from 2800 time units on the status
  is \<open>Idle\<close>, with the fields still empty. This holds for the card of part_001 and for
  that of part_002.
\<close>

theorem submit_status_timeline:
  assumes "\<not> isLogin s" "status s = Idle" "timeouts s = []"
  shows
   "(isValid_p1 g s \<longrightarrow>
      (t < 800 \<longrightarrow>
         status (elapse t (handleSubmit_p1 g s)) = Submitting \<and>
         formValues (elapse t (handleSubmit_p1 g s)) = formValues s \<and>
         submitDisabled_p1 g (elapse t (handleSubmit_p1 g s))) \<and>
      (800 \<le> t \<and> t < 2800 \<longrightarrow>
         status (elapse t (handleSubmit_p1 g s)) = Success \<and>
         formValues (elapse t (handleSubmit_p1 g s)) = defaultValues_p1) \<and>
      (2800 \<le> t \<longrightarrow>
         status (elapse t (handleSubmit_p1 g s)) = Idle \<and>
         formValues (elapse t (handleSubmit_p1 g s)) = defaultValues_p1)) \<and>
    (isValid_p2 g s \<longrightarrow>
      (t < 800 \<longrightarrow>
         status (elapse t (handleSubmit_p2 g s)) = Submitting \<and>
         formValues (elapse t (handleSubmit_p2 g s)) = formValues s \<and>
         submitDisabled_p2 g (elapse t (handleSubmit_p2 g s))) \<and>
      (800 \<le> t \<and> t < 2800 \<longrightarrow>
         status (elapse t (handleSubmit_p2 g s)) = Success \<and>
         formValues (elapse t (handleSubmit_p2 g s)) = defaultValues_p2) \<and>
      (2800 \<le> t \<longrightarrow>
         status (elapse t (handleSubmit_p2 g s)) = Idle \<and>
         formValues (elapse t (handleSubmit_p2 g s)) = defaultValues_p2))"
proof (intro conjI impI)
  have t0: "timeouts (s\<lparr>formErrors := []\<rparr>) = []"
    using assms(3) by simp
  note tl1 = timeline [OF t0, of ApiDone_p1 defaultValues_p1, unfolded defaultValues_p1_def,
      OF run_timeout.simps(1), folded defaultValues_p1_def]
  note tl2 = timeline [OF t0, of ApiDone_p2 defaultValues_p2, unfolded defaultValues_p2_def,
      OF run_timeout.simps(2), folded defaultValues_p2_def]
  {
    assume v: "isValid_p1 g s"
    note h = handleSubmit_p1_valid [OF v]
    {
      assume "t < 800"
      note e = tl1(1) [OF this]
      show "status (elapse t (handleSubmit_p1 g s)) = Submitting"
        by (simp add: h e status_def)
      show "formValues (elapse t (handleSubmit_p1 g s)) = formValues s"
        by (simp add: h e)
      show "submitDisabled_p1 g (elapse t (handleSubmit_p1 g s))"
        by (simp add: h e submitDisabled_p1_def)
    }
    {
      assume "800 \<le> t \<and> t < 2800"
      then have "800 \<le> t" "t < 2800" by simp_all
      note e = tl1(2) [OF this]
      show "status (elapse t (handleSubmit_p1 g s)) = Success"
        by (simp add: h e status_def)
      show "formValues (elapse t (handleSubmit_p1 g s)) = defaultValues_p1"
        by (simp add: h e)
    }
    {
      assume "2800 \<le> t"
      note e = tl1(3) [OF this]
      show "status (elapse t (handleSubmit_p1 g s)) = Idle"
        by (simp add: h e status_def)
      show "formValues (elapse t (handleSubmit_p1 g s)) = defaultValues_p1"
        by (simp add: h e)
    }
  }
  {
    assume v: "isValid_p2 g s"
    note h = handleSubmit_p2_valid [OF v]
    {
      assume "t < 800"
      note e = tl2(1) [OF this]
      show "status (elapse t (handleSubmit_p2 g s)) = Submitting"
        by (simp add: h e status_def)
      show "formValues (elapse t (handleSubmit_p2 g s)) = formValues s"
        by (simp add: h e)
      show "submitDisabled_p2 g (elapse t (handleSubmit_p2 g s))"
        by (simp add: h e submitDisabled_p2_def)
    }
    {
      assume "800 \<le> t \<and> t < 2800"
      then have "800 \<le> t" "t < 2800" by simp_all
      note e = tl2(2) [OF this]
      show "status (elapse t (handleSubmit_p2 g s)) = Success"
        by (simp add: h e status_def)
      show "formValues (elapse t (handleSubmit_p2 g s)) = defaultValues_p2"
        by (simp add: h e)
    }
    {
      assume "2800 \<le> t"
      note e = tl2(3) [OF this]
      show "status (elapse t (handleSubmit_p2 g s)) = Idle"
        by (simp add: h e status_def)
      show "formValues (elapse t (handleSubmit_p2 g s)) = defaultValues_p2"
        by (simp add: h e)
    }
  }
qed


lemma signup_card_p1_facts:
  "\<not> isLogin signup_card_p1" "status signup_card_p1 = Idle" "timeouts signup_card_p1 = []"
  "isValid_p1 emailRegex signup_card_p1"
  by (simp_all add: signup_card_p1_def toggleAuthMode_p1_def AuthCard_p1_def reset_def status_def
      isValid_p1_def resolver_p1_def getSchema_def zodResolver_def SignupSchema_def
      SignupSchema_refinement_def signup_values_p1_def merge_status_def emailRegex_sample)

lemma signup_card_p2_facts:
  "\<not> isLogin signup_card_p2" "status signup_card_p2 = Idle" "timeouts signup_card_p2 = []"
  "isValid_p2 emailRegex signup_card_p2"
  by (simp_all add: signup_card_p2_def toggleAuthMode_p2_def AuthCard_p2_def reset_def status_def
      isValid_p2_def resolver_p2_def zodResolver_def AuthSchema_def
      AuthSchema_refinement_def signup_values_p2_def merge_status_def emailRegex_sample)

text \<open>
  C1 as stated fails: right after the submit handler has run on the valid sign-up form, the
  status is \<open>Submitting\<close> and the \<open>email\<close> field still holds the submitted address, not the
  empty string.
\<close>

theorem values_kept_while_submitting:
  "status (handleSubmit_p1 emailRegex signup_card_p1) = Submitting \<and>
   formValues (handleSubmit_p1 emailRegex signup_card_p1) ''email'' = Some ''a@b.com'' \<and>
   status (handleSubmit_p2 emailRegex signup_card_p2) = Submitting \<and>
   formValues (handleSubmit_p2 emailRegex signup_card_p2) ''email'' = Some ''a@b.com''"
  by (simp add: handleSubmit_p1_valid handleSubmit_p2_valid signup_card_p1_facts signup_card_p2_facts
      setTimeout_def status_def)
     (simp add: signup_card_p1_def signup_card_p2_def signup_values_p1_def signup_values_p2_def)

theorem submit_status_timeline_witness:
  "\<not> isLogin signup_card_p1 \<and> status signup_card_p1 = Idle \<and> timeouts signup_card_p1 = [] \<and>
   isValid_p1 emailRegex signup_card_p1 \<and>
   status (elapse 799 (handleSubmit_p1 emailRegex signup_card_p1)) = Submitting \<and>
   formValues (elapse 799 (handleSubmit_p1 emailRegex signup_card_p1)) = formValues signup_card_p1 \<and>
   submitDisabled_p1 emailRegex (elapse 799 (handleSubmit_p1 emailRegex signup_card_p1)) \<and>
   status (elapse 800 (handleSubmit_p1 emailRegex signup_card_p1)) = Success \<and>
   formValues (elapse 800 (handleSubmit_p1 emailRegex signup_card_p1)) = defaultValues_p1 \<and>
   status (elapse 2799 (handleSubmit_p1 emailRegex signup_card_p1)) = Success \<and>
   status (elapse 2800 (handleSubmit_p1 emailRegex signup_card_p1)) = Idle \<and>
   formValues (elapse 2800 (handleSubmit_p1 emailRegex signup_card_p1)) = defaultValues_p1 \<and>
   \<not> isLogin signup_card_p2 \<and> status signup_card_p2 = Idle \<and> timeouts signup_card_p2 = [] \<and>
   isValid_p2 emailRegex signup_card_p2 \<and>
   status (elapse 799 (handleSubmit_p2 emailRegex signup_card_p2)) = Submitting \<and>
   formValues (elapse 799 (handleSubmit_p2 emailRegex signup_card_p2)) = formValues signup_card_p2 \<and>
   submitDisabled_p2 emailRegex (elapse 799 (handleSubmit_p2 emailRegex signup_card_p2)) \<and>
   status (elapse 800 (handleSubmit_p2 emailRegex signup_card_p2)) = Success \<and>
   formValues (elapse 800 (handleSubmit_p2 emailRegex signup_card_p2)) = defaultValues_p2 \<and>
   status (elapse 2799 (handleSubmit_p2 emailRegex signup_card_p2)) = Success \<and>
   status (elapse 2800 (handleSubmit_p2 emailRegex signup_card_p2)) = Idle \<and>
   formValues (elapse 2800 (handleSubmit_p2 emailRegex signup_card_p2)) = defaultValues_p2"
proof -
  note p1 = submit_status_timeline [OF signup_card_p1_facts(1-3), of emailRegex]
  note p2 = submit_status_timeline [OF signup_card_p2_facts(1-3), of emailRegex]
  from p1 [of 799] p1 [of 800] p1 [of 2799] p1 [of 2800]
       p2 [of 799] p2 [of 800] p2 [of 2799] p2 [of 2800]
  show ?thesis
    by (simp add: signup_card_p1_facts signup_card_p2_facts)
qed

end
